theory Spec2Isabelle
  imports Complex_Main "HOL-Library.Sublist"
begin

section \<open>Python strings and lists\<close>

text \<open>
  A Python \<open>str\<close> is modelled as a \<open>string\<close> in which every \<open>char\<close> stands for one
  code point (code points below 256), so that \<open>length\<close> is Python's \<open>len\<close>.
\<close>

definition is_linebreak :: "char \<Rightarrow> bool" where
  \<comment> \<open>the boundaries of \<open>str.splitlines\<close>: LF, VT, FF, CR, FS, GS, RS, NEL\<close>
  "is_linebreak c = ((of_char c :: nat) \<in> {10, 11, 12, 13, 28, 29, 30, 133})"

definition is_space :: "char \<Rightarrow> bool" where
  \<comment> \<open>the characters \<open>str.strip()\<close> removes\<close>
  "is_space c = ((of_char c :: nat) \<in> {9, 10, 11, 12, 13, 28, 29, 30, 31, 32, 133, 160})"

fun splitlines_from :: "string \<Rightarrow> string \<Rightarrow> string list" where
  "splitlines_from cur [] = (if cur = [] then [] else [rev cur])"
| "splitlines_from cur [c] =
     (if is_linebreak c then [rev cur] else [rev (c # cur)])"
| "splitlines_from cur (c # d # cs) =
     (if (of_char c :: nat) = 13 \<and> (of_char d :: nat) = 10 then rev cur # splitlines_from [] cs
      else if is_linebreak c then rev cur # splitlines_from [] (d # cs)
      else splitlines_from (c # cur) (d # cs))"

definition splitlines :: "string \<Rightarrow> string list" where
  "splitlines s = splitlines_from [] s"

definition strip :: "string \<Rightarrow> string" where
  "strip s = rev (dropWhile is_space (rev (dropWhile is_space s)))"

fun join_nl :: "string list \<Rightarrow> string" where
  \<comment> \<open>\<open>"\n".join(xs)\<close>\<close>
  "join_nl [] = []"
| "join_nl [x] = x"
| "join_nl (x # y # ys) = x @ [CHR 0x0A] @ join_nl (y # ys)"

definition py_index :: "int \<Rightarrow> int \<Rightarrow> nat" where
  \<comment> \<open>how a slice bound is read against a sequence of length \<open>n\<close>: a negative bound counts
      from the end, and every bound is clipped to \<open>0..n\<close>\<close>
  "py_index n i = nat (if i < 0 then max 0 (i + n) else min i n)"

definition py_slice :: "'a list \<Rightarrow> int \<Rightarrow> int \<Rightarrow> 'a list" where
  \<comment> \<open>\<open>xs[i:j]\<close>\<close>
  "py_slice xs i j =
     (let n = int (length xs); a = py_index n i; b = py_index n j
      in take (b - a) (drop a xs))"

section \<open>Chunks (chunkers.py)\<close>

record chunk =
  c_file_path :: string
  c_language :: string
  c_chunk_type :: string
  c_symbol_name :: "string option"
  c_start_line :: int
  c_end_line :: int
  c_text :: string

subsection \<open>chunk\_fallback\<close>

text \<open>
  The \<open>while i < n\<close> loop of \<open>chunk_fallback\<close>. The loop has no bound of its own: it is a
  partial function, and \<open>None\<close> is a run that never returns.
\<close>

partial_function (option) fallback_loop ::
  "string \<Rightarrow> string \<Rightarrow> string list \<Rightarrow> int \<Rightarrow> int \<Rightarrow> int \<Rightarrow> chunk list \<Rightarrow> chunk list option"
where
  "fallback_loop rel_path lang lines max_lines overlap_lines i out =
     (if i < int (length lines) then
        (let j = min (int (length lines)) (i + max_lines);
             window = strip (join_nl (py_slice lines i j));
             out' = (if window \<noteq> [] then
                       out @ [\<lparr>c_file_path = rel_path, c_language = lang,
                                c_chunk_type = ''window'', c_symbol_name = None,
                                c_start_line = i + 1, c_end_line = j, c_text = window\<rparr>]
                     else out)
         in if j \<ge> int (length lines) then Some out'
            else fallback_loop rel_path lang lines max_lines overlap_lines
                   (max 0 (j - overlap_lines)) out')
      else Some out)"

declare fallback_loop.simps [code]

definition chunk_fallback ::
  "string \<Rightarrow> string \<Rightarrow> string \<Rightarrow> int \<Rightarrow> int \<Rightarrow> chunk list option" where
  "chunk_fallback rel_path text lang max_lines overlap_lines =
     fallback_loop rel_path lang (splitlines text) max_lines overlap_lines 0 []"



subsection \<open>\_window\_chunks\<close>

definition flush ::
  "string \<Rightarrow> string \<Rightarrow> string option \<Rightarrow> chunk list \<Rightarrow> int \<Rightarrow> int \<Rightarrow> string list \<Rightarrow> chunk list" where
  \<comment> \<open>the inner \<open>flush(buf_start, cur_line_exclusive, buf)\<close>, with \<open>out\<close> passed explicitly\<close>
  "flush rel_path lang symbol out buf_start cur_line_exclusive buf =
     (let t = strip (join_nl buf)
      in if t \<noteq> [] then
           out @ [\<lparr>c_file_path = rel_path, c_language = lang, c_chunk_type = ''window'',
                    c_symbol_name = symbol, c_start_line = buf_start,
                    c_end_line = cur_line_exclusive - 1, c_text = t\<rparr>]
         else out)"

text \<open>The loop state of \<open>_window_chunks\<close>: \<open>(out, buf, buf_start, cur_line)\<close>.\<close>

type_synonym wstate = "chunk list \<times> string list \<times> int \<times> int"

definition window_step ::
  "string \<Rightarrow> string \<Rightarrow> string option \<Rightarrow> int \<Rightarrow> wstate \<Rightarrow> string \<Rightarrow> wstate" where
  "window_step rel_path lang symbol max_chunk_chars st line =
     (case st of (out, buf, buf_start, cur_line) \<Rightarrow>
        (let prospective = join_nl (buf @ [line])
         in if buf \<noteq> [] \<and> int (length prospective) > max_chunk_chars
            then (flush rel_path lang symbol out buf_start cur_line buf,
                  [line], cur_line, cur_line + 1)
            else (out, buf @ [line], buf_start, cur_line + 1)))"

definition window_chunks ::
  "string \<Rightarrow> string \<Rightarrow> string \<Rightarrow> string option \<Rightarrow> string list \<Rightarrow> int \<Rightarrow> int \<Rightarrow> chunk list" where
  \<comment> \<open>\<open>_window_chunks\<close>; its \<open>chunk_type\<close> argument is not used by the source either\<close>
  "window_chunks rel_path lang chunk_type symbol lines start_line max_chunk_chars =
     (case foldl (window_step rel_path lang symbol max_chunk_chars)
             ([], [], start_line, start_line) lines of
        (out, buf, buf_start, cur_line) \<Rightarrow>
          if buf \<noteq> [] then flush rel_path lang symbol out buf_start cur_line buf else out)"

section \<open>The syntax tree of the analyzed language\<close>

text \<open>
  The tree that \<open>ast.parse\<close> returns, as far as the chunker and the analyzer look at it.
  Every node keeps its child nodes in the order in which \<open>generic_visit\<close> walks its
  fields. An absent \<open>end_lineno\<close> is \<open>None\<close>. The parser itself is a library outside the
  repository: it is a parameter \<open>parse\<close>, and \<open>None\<close> is its \<open>SyntaxError\<close>.
\<close>

datatype expr_context = Load | Store | Del

datatype node =
    FunctionDef string int "int option" "node list"
  | AsyncFunctionDef string int "int option" "node list"
  | ClassDef string int "int option" "node list"
  | Name string expr_context int int
  | Attribute node string
  | Call node "node list" int
  | Other "node list"

type_synonym parser = "string \<Rightarrow> node list option"

subsection \<open>chunk\_python\<close>

type_synonym symbol_row = "string \<times> string \<times> int \<times> int"

definition top_level_def :: "node \<Rightarrow> (string \<times> string \<times> int \<times> int option) option" where
  \<comment> \<open>name, kind, \<open>lineno\<close> and \<open>end_lineno\<close> of a node that passes the \<open>isinstance\<close> test\<close>
  "top_level_def nd =
     (case nd of
        FunctionDef name start e _ \<Rightarrow> Some (name, ''function'', start, e)
      | AsyncFunctionDef name start e _ \<Rightarrow> Some (name, ''function'', start, e)
      | ClassDef name start e _ \<Rightarrow> Some (name, ''class'', start, e)
      | _ \<Rightarrow> None)"

definition chunk_node ::
  "string \<Rightarrow> string list \<Rightarrow> int \<Rightarrow> chunk list \<times> symbol_row list \<Rightarrow> node
     \<Rightarrow> chunk list \<times> symbol_row list" where
  \<comment> \<open>one iteration of \<open>for node in tree.body\<close>\<close>
  "chunk_node rel_path lines max_chunk_chars acc nd =
     (case acc of (chunks, symbols) \<Rightarrow>
        (case top_level_def nd of
           None \<Rightarrow> (chunks, symbols)
         | Some (name, kind, start, None) \<Rightarrow> (chunks, symbols)
         | Some (name, kind, start, Some e) \<Rightarrow>
             (let symbols' = symbols @ [((if name = [] then ''<unknown>'' else name), kind, start, e)];
                  seg_lines = py_slice lines (start - 1) e;
                  seg_text = strip (join_nl seg_lines)
              in if seg_text = [] then (chunks, symbols')
                 else if int (length seg_text) > max_chunk_chars then
                   (chunks @ window_chunks rel_path ''python'' kind (Some name) seg_lines start
                               max_chunk_chars, symbols')
                 else
                   (chunks @ [\<lparr>c_file_path = rel_path, c_language = ''python'',
                                c_chunk_type = kind, c_symbol_name = Some name,
                                c_start_line = start, c_end_line = e, c_text = seg_text\<rparr>],
                    symbols'))))"

definition chunk_python ::
  "parser \<Rightarrow> string \<Rightarrow> string \<Rightarrow> int \<Rightarrow> (chunk list \<times> symbol_row list) option" where
  \<comment> \<open>\<open>None\<close> is a call that never returns (only the fallback loop could do that)\<close>
  "chunk_python parse rel_path text max_chunk_chars =
     (case parse text of
        None \<Rightarrow>
          (case chunk_fallback rel_path text ''python'' 220 40 of
             None \<Rightarrow> None
           | Some ws \<Rightarrow> Some (ws, []))
      | Some body \<Rightarrow>
          (let lines = splitlines text;
               head_end = min (int (length lines)) 80;
               head_text = strip (join_nl (py_slice lines 0 head_end));
               chunks = (if head_text \<noteq> [] then
                           [\<lparr>c_file_path = rel_path, c_language = ''python'',
                              c_chunk_type = ''module'', c_symbol_name = None,
                              c_start_line = 1, c_end_line = head_end,
                              c_text = py_slice head_text 0 max_chunk_chars\<rparr>]
                         else [])
           in Some (foldl (chunk_node rel_path lines max_chunk_chars) (chunks, []) body)))"

section \<open>The structural analyzer (py\_analyze.py)\<close>

record py_def =
  d_name :: string
  d_qualname :: string
  d_kind :: string
  d_start_line :: int
  d_end_line :: int

record py_ref =
  r_name :: string
  r_line :: int
  r_col :: int
  r_context :: string

record py_call =
  k_caller_qualname :: string
  k_callee :: string
  k_line :: int

definition get_line :: "string list \<Rightarrow> int \<Rightarrow> string" where
  "get_line lines lineno =
     (if 1 \<le> lineno \<and> lineno \<le> int (length lines) then lines ! nat (lineno - 1) else [])"

fun join_dot :: "string list \<Rightarrow> string" where
  \<comment> \<open>\<open>".".join(parts)\<close>\<close>
  "join_dot [] = []"
| "join_dot [x] = x"
| "join_dot (x # y # ys) = x @ ''.'' @ join_dot (y # ys)"

fun attr_parts :: "node \<Rightarrow> string list" where
  \<comment> \<open>the \<open>while isinstance(cur, ast.Attribute)\<close> loop; \<open>parts\<close> before it is reversed\<close>
  "attr_parts (Attribute v attr) = attr # attr_parts v"
| "attr_parts (Name ident c l col) = [ident]"
| "attr_parts nd = []"

definition callee_str :: "node \<Rightarrow> string" where
  "callee_str nd =
     (case nd of
        Name ident c l col \<Rightarrow> ident
      | Attribute v attr \<Rightarrow> join_dot (rev (attr_parts nd))
      | _ \<Rightarrow> ''<call>'')"

record analyzer =
  a_lines :: "string list"
  a_defs :: "py_def list"
  a_refs :: "py_ref list"
  a_calls :: "py_call list"
  a_scope :: "string list"
  a_current_callable :: "string list"

definition qualname :: "analyzer \<Rightarrow> string \<Rightarrow> string" where
  "qualname a name = (if a_scope a \<noteq> [] then join_dot (a_scope a @ [name]) else name)"

definition enter_function :: "string \<Rightarrow> int \<Rightarrow> int option \<Rightarrow> analyzer \<Rightarrow> analyzer" where
  \<comment> \<open>\<open>_visit_function\<close> up to its \<open>generic_visit\<close>\<close>
  "enter_function name l e a =
     (let qn = qualname a name;
          kind = (if a_scope a \<noteq> [] then ''method'' else ''function'')
      in a\<lparr>a_defs := a_defs a @
                 [\<lparr>d_name = name, d_qualname = qn, d_kind = kind, d_start_line = l,
                    d_end_line = (case e of None \<Rightarrow> l | Some x \<Rightarrow> x)\<rparr>],
             a_scope := a_scope a @ [name],
             a_current_callable := a_current_callable a @ [qn]\<rparr>)"

definition leave_function :: "analyzer \<Rightarrow> analyzer" where
  "leave_function a =
     a\<lparr>a_current_callable := butlast (a_current_callable a), a_scope := butlast (a_scope a)\<rparr>"

definition enter_class :: "string \<Rightarrow> int \<Rightarrow> int option \<Rightarrow> analyzer \<Rightarrow> analyzer" where
  "enter_class name l e a =
     a\<lparr>a_defs := a_defs a @
              [\<lparr>d_name = name, d_qualname = qualname a name, d_kind = ''class'',
                 d_start_line = l, d_end_line = (case e of None \<Rightarrow> l | Some x \<Rightarrow> x)\<rparr>],
          a_scope := a_scope a @ [name]\<rparr>"

definition leave_class :: "analyzer \<Rightarrow> analyzer" where
  "leave_class a = a\<lparr>a_scope := butlast (a_scope a)\<rparr>"

definition note_name :: "string \<Rightarrow> expr_context \<Rightarrow> int \<Rightarrow> int \<Rightarrow> analyzer \<Rightarrow> analyzer" where
  \<comment> \<open>\<open>visit_Name\<close>\<close>
  "note_name ident c line col a =
     (if c = Load then
        (let lt = get_line (a_lines a) line;
             start = max 0 (col - 40);
             end' = min (int (length lt)) (col + int (length ident) + 40)
         in a\<lparr>a_refs := a_refs a @
                  [\<lparr>r_name = ident, r_line = line, r_col = col,
                     r_context = py_slice lt start end'\<rparr>]\<rparr>)
      else a)"

definition note_call :: "node \<Rightarrow> int \<Rightarrow> analyzer \<Rightarrow> analyzer" where
  \<comment> \<open>\<open>visit_Call\<close> up to its \<open>generic_visit\<close>\<close>
  "note_call func line a =
     (if a_current_callable a \<noteq> [] then
        a\<lparr>a_calls := a_calls a @
               [\<lparr>k_caller_qualname = last (a_current_callable a),
                  k_callee = callee_str func, k_line = line\<rparr>]\<rparr>
      else a)"

fun visit :: "node \<Rightarrow> analyzer \<Rightarrow> analyzer"
  and visit_all :: "node list \<Rightarrow> analyzer \<Rightarrow> analyzer" where
  "visit (ClassDef name l e children) a = leave_class (visit_all children (enter_class name l e a))"
| "visit (FunctionDef name l e children) a =
     leave_function (visit_all children (enter_function name l e a))"
| "visit (AsyncFunctionDef name l e children) a =
     leave_function (visit_all children (enter_function name l e a))"
| "visit (Name ident c line col) a = note_name ident c line col a"
| "visit (Call func args line) a = visit_all (func # args) (note_call func line a)"
| "visit (Attribute v attr) a = visit v a"
| "visit (Other children) a = visit_all children a"
| "visit_all [] a = a"
| "visit_all (nd # nds) a = visit_all nds (visit nd a)"

definition analyze_python_source ::
  "parser \<Rightarrow> string \<Rightarrow> py_def list \<times> py_ref list \<times> py_call list" where
  "analyze_python_source parse text =
     (case parse text of
        None \<Rightarrow> ([], [], [])
      | Some body \<Rightarrow>
          (let an = visit_all body
                      \<lparr>a_lines = splitlines text, a_defs = [], a_refs = [], a_calls = [],
                        a_scope = [], a_current_callable = []\<rparr>
           in (a_defs an, a_refs an, a_calls an)))"

section \<open>The snapshot store (db.py) and the vector index (qdrant\_store.py)\<close>

text \<open>
  Every table is the list of its rows. A \<open>DELETE ... WHERE\<close> filters the list, an
  \<open>INSERT OR REPLACE\<close> drops the rows that collide with the new row on the primary key and
  appends it, an \<open>INSERT OR IGNORE\<close> skips a colliding row. Digests, timestamps and
  embedding vectors come from outside; a finite \<open>mtime\<close> is a rational number.
\<close>

record workspace_row =
  w_workspace_id :: string
  w_repo_root :: string
  w_created_at :: string

record snapshot_row =
  sn_workspace_id :: string
  sn_git_ref :: string
  sn_indexed_at :: string

record file_row =
  f_workspace_id :: string
  f_git_ref :: string
  f_file_path :: string
  f_sha256 :: string
  f_mtime :: rat
  f_size :: int
  f_language :: string
  f_updated_at :: string

record snap_symbol_row =
  ss_workspace_id :: string
  ss_git_ref :: string
  ss_file_path :: string
  ss_symbol_name :: string
  ss_symbol_kind :: string
  ss_start_line :: int
  ss_end_line :: int

record py_symbol_row =
  ps_symbol_id :: string
  ps_workspace_id :: string
  ps_git_ref :: string
  ps_file_path :: string
  ps_symbol_name :: string
  ps_qualname :: string
  ps_symbol_kind :: string
  ps_start_line :: int
  ps_end_line :: int

record py_ref_row =
  pr_workspace_id :: string
  pr_git_ref :: string
  pr_symbol_name :: string
  pr_file_path :: string
  pr_line :: int
  pr_col :: int
  pr_context :: string

record edge_row =
  e_workspace_id :: string
  e_git_ref :: string
  e_from_symbol_id :: string
  e_to_name :: string
  e_to_symbol_id :: "string option"
  e_call_line :: int

record fts_row =
  t_workspace_id :: string
  t_git_ref :: string
  t_file_path :: string
  t_start_line :: int
  t_end_line :: int
  t_language :: string
  t_chunk_type :: string
  t_symbol_name :: "string option"
  t_text :: string

record legacy_symbol_row =
  ls_workspace_id :: string
  ls_file_path :: string
  ls_symbol_name :: string
  ls_symbol_kind :: string
  ls_start_line :: int
  ls_end_line :: int

record 'v point =
  pt_id :: string
  pt_vector :: 'v
  pt_workspace_id :: string
  pt_git_ref :: string
  pt_file_path :: string
  pt_language :: string
  pt_chunk_type :: string
  pt_symbol_name :: "string option"
  pt_start_line :: int
  pt_end_line :: int
  pt_text :: string
  pt_chunk_sha256 :: string
  pt_updated_at :: string

record 'v store =
  workspaces :: "workspace_row list"
  snapshots :: "snapshot_row list"
  files_snap :: "file_row list"
  symbols_snap :: "snap_symbol_row list"
  py_symbols :: "py_symbol_row list"
  py_refs :: "py_ref_row list"
  py_call_edges :: "edge_row list"
  chunk_fts :: "fts_row list"
  symbols :: "legacy_symbol_row list"
  points :: "'v point list"

definition insert_or_replace :: "('r \<Rightarrow> 'r \<Rightarrow> bool) \<Rightarrow> 'r list \<Rightarrow> 'r \<Rightarrow> 'r list" where
  \<comment> \<open>\<open>conflict new old\<close>: the two rows collide on the primary key\<close>
  "insert_or_replace conflict rows r = filter (\<lambda>old. \<not> conflict r old) rows @ [r]"

definition insert_or_ignore :: "('r \<Rightarrow> 'r \<Rightarrow> bool) \<Rightarrow> 'r list \<Rightarrow> 'r \<Rightarrow> 'r list" where
  "insert_or_ignore conflict rows r = (if list_ex (conflict r) rows then rows else rows @ [r])"

definition workspace_key :: "workspace_row \<Rightarrow> workspace_row \<Rightarrow> bool" where
  "workspace_key a b = (w_workspace_id a = w_workspace_id b)"

definition snapshot_key :: "snapshot_row \<Rightarrow> snapshot_row \<Rightarrow> bool" where
  "snapshot_key a b = (sn_workspace_id a = sn_workspace_id b \<and> sn_git_ref a = sn_git_ref b)"

definition snap_symbol_key :: "snap_symbol_row \<Rightarrow> snap_symbol_row \<Rightarrow> bool" where
  "snap_symbol_key a b =
     (ss_workspace_id a = ss_workspace_id b \<and> ss_git_ref a = ss_git_ref b \<and>
      ss_file_path a = ss_file_path b \<and> ss_symbol_name a = ss_symbol_name b \<and>
      ss_symbol_kind a = ss_symbol_kind b \<and> ss_start_line a = ss_start_line b)"

definition py_symbol_key :: "py_symbol_row \<Rightarrow> py_symbol_row \<Rightarrow> bool" where
  "py_symbol_key a b = (ps_symbol_id a = ps_symbol_id b)"

definition py_ref_key :: "py_ref_row \<Rightarrow> py_ref_row \<Rightarrow> bool" where
  "py_ref_key a b =
     (pr_workspace_id a = pr_workspace_id b \<and> pr_git_ref a = pr_git_ref b \<and>
      pr_symbol_name a = pr_symbol_name b \<and> pr_file_path a = pr_file_path b \<and>
      pr_line a = pr_line b \<and> pr_col a = pr_col b)"

definition edge_key :: "edge_row \<Rightarrow> edge_row \<Rightarrow> bool" where
  \<comment> \<open>all six columns are the key; a NULL \<open>to_symbol_id\<close> never collides\<close>
  "edge_key a b = (e_to_symbol_id a \<noteq> None \<and> a = b)"

section \<open>Identifiers (ids.py)\<close>

fun str_nat :: "nat \<Rightarrow> string" where
  "str_nat n =
     (if n < 10 then [char_of (48 + n)] else str_nat (n div 10) @ [char_of (48 + n mod 10)])"

definition str_int :: "int \<Rightarrow> string" where
  \<comment> \<open>\<open>str(i)\<close> for an integer\<close>
  "str_int i = (if i < 0 then ''-'' @ str_nat (nat (- i)) else str_nat (nat i))"

definition make_symbol_id ::
  "(string \<Rightarrow> string) \<Rightarrow> string \<Rightarrow> string \<Rightarrow> string \<Rightarrow> string \<Rightarrow> string \<Rightarrow> int \<Rightarrow> int \<Rightarrow> string" where
  \<comment> \<open>\<open>uuid5\<close> is \<open>str(uuid.uuid5(uuid.NAMESPACE_URL, key))\<close>, a library hash\<close>
  "make_symbol_id uuid5 workspace_id git_ref file_path qn kind start_line end_line =
     uuid5 (workspace_id @ ''|'' @ git_ref @ ''|'' @ file_path @ ''|'' @ qn @ ''|'' @ kind
            @ ''|'' @ str_int start_line @ ''|'' @ str_int end_line)"

section \<open>The indexing pipeline (indexer.py)\<close>

record 'v env =
  cfg_max_chunk_chars :: int
  cfg_max_fallback_lines :: int
  cfg_fallback_overlap_lines :: int
  wid :: string
  env_repo_root :: string
  git_ref :: string
  now :: string
  ast_parse :: parser
  uuid5 :: "string \<Rightarrow> string"
  sha256_text :: "string \<Rightarrow> string"
  embed_passages :: "string list \<Rightarrow> 'v list"
  job_cb :: bool
  total :: int

text \<open>What the run reads from the file system for one discovered file.\<close>

record file_obs =
  fo_rel :: string
  fo_stat :: "(rat \<times> int) option"
  fo_lang :: string
  fo_hash :: string
  fo_text :: string

datatype cb_message = Scanning_unchanged string | Indexed string nat

record 'v run_state =
  db :: "'v store"
  processed :: int
  changed :: int
  cb_log :: "(int \<times> int \<times> cb_message) list"

subsection \<open>Call edges\<close>

fun split_from :: "char \<Rightarrow> string \<Rightarrow> string \<Rightarrow> string list" where
  "split_from sep cur [] = [rev cur]"
| "split_from sep cur (c # cs) =
     (if c = sep then rev cur # split_from sep [] cs else split_from sep (c # cur) cs)"

definition split_dot :: "string \<Rightarrow> string list" where
  \<comment> \<open>\<open>to_name.split(".")\<close>\<close>
  "split_dot s = split_from (CHR ''.'') [] s"

definition setdefault_append :: "('k \<rightharpoonup> 'a list) \<Rightarrow> 'k \<Rightarrow> 'a \<Rightarrow> ('k \<rightharpoonup> 'a list)" where
  \<comment> \<open>\<open>d.setdefault(k, []).append(v)\<close>\<close>
  "setdefault_append d k v = d(k \<mapsto> (case d k of None \<Rightarrow> [] | Some l \<Rightarrow> l) @ [v])"

definition name_to_ids :: "(string \<times> string) list \<Rightarrow> (string \<rightharpoonup> string list)" where
  \<comment> \<open>the loops that fill \<open>name_to_ids_local\<close> and \<open>name_to_ids_global\<close> from (name, id) pairs\<close>
  "name_to_ids pairs = foldl (\<lambda>d (nm, sid). setdefault_append d nm sid) Map.empty pairs"

definition resolve_to_id ::
  "(string \<rightharpoonup> string list) \<Rightarrow> (string \<rightharpoonup> string list) \<Rightarrow> string \<Rightarrow> string option" where
  "resolve_to_id name_to_ids_local name_to_ids_global to_name =
     (let base = last (split_dot to_name)
      in case name_to_ids_local base of
           Some [x] \<Rightarrow> Some x
         | _ \<Rightarrow> (case name_to_ids_global base of Some [x] \<Rightarrow> Some x | _ \<Rightarrow> None))"

definition edge_rows_of ::
  "string \<Rightarrow> string \<Rightarrow> (string \<rightharpoonup> string) \<Rightarrow> py_symbol_row list \<Rightarrow> py_symbol_row list
     \<Rightarrow> py_call list \<Rightarrow> edge_row list" where
  \<comment> \<open>\<open>edge_rows\<close>, from the rows of this file and the rows of the whole snapshot\<close>
  "edge_rows_of w g qual_to_id def_rows global_rows py_calls =
     (let name_to_ids_local = name_to_ids (map (\<lambda>r. (ps_symbol_name r, ps_symbol_id r)) def_rows);
          name_to_ids_global = name_to_ids (map (\<lambda>r. (ps_symbol_name r, ps_symbol_id r)) global_rows)
      in concat (map (\<lambda>c.
           (case qual_to_id (k_caller_qualname c) of
              None \<Rightarrow> []
            | Some from_id \<Rightarrow>
                if from_id = [] then []
                else [\<lparr>e_workspace_id = w, e_git_ref = g, e_from_symbol_id = from_id,
                       e_to_name = k_callee c,
                       e_to_symbol_id = resolve_to_id name_to_ids_local name_to_ids_global (k_callee c),
                       e_call_line = k_line c\<rparr>])) py_calls))"

definition python_enrichment :: "'v env \<Rightarrow> string \<Rightarrow> string \<Rightarrow> 'v store \<Rightarrow> 'v store" where
  \<comment> \<open>the \<open>if lang == "python"\<close> block of the loop body\<close>
  "python_enrichment env rel text s0 =
     (case analyze_python_source (ast_parse env) text of (defs, refs, calls) \<Rightarrow>
        (let s1 = s0\<lparr>py_symbols := filter (\<lambda>r. \<not> (ps_workspace_id r = wid env \<and>
                        ps_git_ref r = git_ref env \<and> ps_file_path r = rel)) (py_symbols s0)\<rparr>;
             s2 = s1\<lparr>py_refs := filter (\<lambda>r. \<not> (pr_workspace_id r = wid env \<and>
                        pr_git_ref r = git_ref env \<and> pr_file_path r = rel)) (py_refs s1)\<rparr>;
             file_ids = map ps_symbol_id (filter (\<lambda>r. ps_workspace_id r = wid env \<and>
                        ps_git_ref r = git_ref env \<and> ps_file_path r = rel) (py_symbols s2));
             s3 = s2\<lparr>py_call_edges := filter (\<lambda>e. \<not> (e_workspace_id e = wid env \<and>
                        e_git_ref e = git_ref env \<and> e_from_symbol_id e \<in> set file_ids))
                        (py_call_edges s2)\<rparr>;
             def_rows = map (\<lambda>d.
                        \<lparr>ps_symbol_id = make_symbol_id (uuid5 env) (wid env) (git_ref env) rel
                                          (d_qualname d) (d_kind d) (d_start_line d) (d_end_line d),
                          ps_workspace_id = wid env, ps_git_ref = git_ref env, ps_file_path = rel,
                          ps_symbol_name = d_name d, ps_qualname = d_qualname d,
                          ps_symbol_kind = d_kind d, ps_start_line = d_start_line d,
                          ps_end_line = d_end_line d\<rparr>) defs;
             qual_to_id = foldl (\<lambda>m r. m(ps_qualname r \<mapsto> ps_symbol_id r)) Map.empty def_rows;
             s4 = s3\<lparr>py_symbols := foldl (insert_or_replace py_symbol_key) (py_symbols s3) def_rows\<rparr>;
             ref_rows = map (\<lambda>r. \<lparr>pr_workspace_id = wid env, pr_git_ref = git_ref env,
                                   pr_symbol_name = r_name r, pr_file_path = rel,
                                   pr_line = r_line r, pr_col = r_col r,
                                   pr_context = r_context r\<rparr>) refs;
             s5 = s4\<lparr>py_refs := foldl (insert_or_replace py_ref_key) (py_refs s4) ref_rows\<rparr>
         in if calls \<noteq> [] \<and> def_rows \<noteq> [] then
              (let global_rows = filter (\<lambda>r. ps_workspace_id r = wid env \<and>
                                     ps_git_ref r = git_ref env) (py_symbols s5);
                   edge_rows = edge_rows_of (wid env) (git_ref env) qual_to_id def_rows
                                 global_rows calls
               in s5\<lparr>py_call_edges := foldl (insert_or_replace edge_key) (py_call_edges s5)
                                          edge_rows\<rparr>)
            else s5))"

subsection \<open>One file of the run\<close>

definition point_of :: "'v env \<Rightarrow> chunk \<Rightarrow> 'v \<Rightarrow> 'v point" where
  "point_of env c v =
     \<lparr>pt_id = uuid5 env (wid env @ '':'' @ git_ref env @ '':'' @ c_file_path c @ '':''
                          @ str_int (c_start_line c) @ '':'' @ str_int (c_end_line c) @ '':''
                          @ sha256_text env (c_text c)),
      pt_vector = v, pt_workspace_id = wid env, pt_git_ref = git_ref env,
      pt_file_path = c_file_path c, pt_language = c_language c,
      pt_chunk_type = c_chunk_type c, pt_symbol_name = c_symbol_name c,
      pt_start_line = c_start_line c, pt_end_line = c_end_line c, pt_text = c_text c,
      pt_chunk_sha256 = sha256_text env (c_text c), pt_updated_at = now env\<rparr>"

definition delete_file :: "string \<Rightarrow> string \<Rightarrow> string \<Rightarrow> 'v point list \<Rightarrow> 'v point list" where
  "delete_file workspace_id file_path g pts =
     filter (\<lambda>p. \<not> (pt_workspace_id p = workspace_id \<and> pt_file_path p = file_path \<and>
                     pt_git_ref p = g)) pts"

definition upsert_chunks :: "'v point list \<Rightarrow> 'v point list \<Rightarrow> 'v point list" where
  "upsert_chunks new pts = foldl (insert_or_replace (\<lambda>a b. pt_id a = pt_id b)) pts new"

definition upsert_file_row :: "file_row \<Rightarrow> file_row list \<Rightarrow> file_row list" where
  \<comment> \<open>\<open>INSERT ... ON CONFLICT(workspace_id, git_ref, file_path) DO UPDATE SET ...\<close>\<close>
  "upsert_file_row r rows =
     (let hit = (\<lambda>old. f_workspace_id old = f_workspace_id r \<and> f_git_ref old = f_git_ref r \<and>
                        f_file_path old = f_file_path r)
      in if list_ex hit rows then
           map (\<lambda>old. if hit old then
                         old\<lparr>f_sha256 := f_sha256 r, f_mtime := f_mtime r, f_size := f_size r,
                             f_language := f_language r, f_updated_at := f_updated_at r\<rparr>
                       else old) rows
         else rows @ [r])"

definition unchanged :: "'v env \<Rightarrow> file_obs \<Rightarrow> rat \<Rightarrow> int \<Rightarrow> 'v store \<Rightarrow> bool" where
  \<comment> \<open>the test on the row that \<open>fetch_one\<close> finds in \<open>files_snap\<close>\<close>
  "unchanged env f mtime sz s =
     (case find (\<lambda>r. f_workspace_id r = wid env \<and> f_git_ref r = git_ref env \<and>
                      f_file_path r = fo_rel f) (files_snap s) of
        None \<Rightarrow> False
      | Some row \<Rightarrow> f_sha256 row = fo_hash f \<and> f_mtime row = mtime \<and> f_size row = sz)"

definition reindex_file ::
  "'v env \<Rightarrow> file_obs \<Rightarrow> rat \<Rightarrow> int \<Rightarrow> chunk list \<Rightarrow> symbol_row list \<Rightarrow> 'v run_state
     \<Rightarrow> 'v run_state" where
  \<comment> \<open>the loop body from \<open>store.delete_file\<close> on, for a changed file that has been chunked\<close>
  "reindex_file env f mtime sz chunks syms st =
     (let rel = fo_rel f; lang = fo_lang f; s0 = db st;
          passages = map c_text chunks;
          vecs = (if passages \<noteq> [] then embed_passages env passages else []);
          pts = map (\<lambda>(c, v). point_of env c v) (zip chunks vecs);
          s1 = s0\<lparr>points := upsert_chunks pts (delete_file (wid env) rel (git_ref env) (points s0))\<rparr>;
          s2 = (if lang = ''python'' then python_enrichment env rel (fo_text f) s1 else s1);
          s3 = s2\<lparr>chunk_fts :=
                    filter (\<lambda>r. \<not> (t_workspace_id r = wid env \<and> t_file_path r = rel \<and>
                                    t_git_ref r = git_ref env)) (chunk_fts s2)
                    @ map (\<lambda>c. \<lparr>t_workspace_id = wid env, t_git_ref = git_ref env,
                                  t_file_path = c_file_path c, t_start_line = c_start_line c,
                                  t_end_line = c_end_line c, t_language = c_language c,
                                  t_chunk_type = c_chunk_type c,
                                  t_symbol_name = c_symbol_name c, t_text = c_text c\<rparr>) chunks\<rparr>;
          s4 = s3\<lparr>files_snap := upsert_file_row
                    \<lparr>f_workspace_id = wid env, f_git_ref = git_ref env, f_file_path = rel,
                      f_sha256 = fo_hash f, f_mtime = mtime, f_size = sz, f_language = lang,
                      f_updated_at = now env\<rparr> (files_snap s3)\<rparr>;
          s5 = s4\<lparr>symbols_snap := foldl (insert_or_ignore snap_symbol_key)
                    (filter (\<lambda>r. \<not> (ss_workspace_id r = wid env \<and> ss_git_ref r = git_ref env \<and>
                                     ss_file_path r = rel)) (symbols_snap s4))
                    (map (\<lambda>(sname, skind, sstart, send).
                            \<lparr>ss_workspace_id = wid env, ss_git_ref = git_ref env,
                              ss_file_path = rel, ss_symbol_name = sname, ss_symbol_kind = skind,
                              ss_start_line = sstart, ss_end_line = send\<rparr>) syms)\<rparr>
      in st\<lparr>db := s5,
            cb_log := (if job_cb env
                       then cb_log st @ [(processed st, total env, Indexed rel (length pts))]
                       else cb_log st)\<rparr>)"

definition index_file :: "'v env \<Rightarrow> file_obs \<Rightarrow> 'v run_state \<Rightarrow> 'v run_state option" where
  \<comment> \<open>one iteration of \<open>for f in files\<close> in \<open>index_repo\<close>; \<open>None\<close>: the chunker never returns\<close>
  "index_file env f st0 =
     (let st = st0\<lparr>processed := processed st0 + 1\<rparr>
      in case fo_stat f of
           None \<Rightarrow> Some st
         | Some (mtime, sz) \<Rightarrow>
             if unchanged env f mtime sz (db st) then
               Some (if job_cb env \<and> processed st mod 25 = 0
                     then st\<lparr>cb_log := cb_log st @
                              [(processed st, total env, Scanning_unchanged (fo_rel f))]\<rparr>
                     else st)
             else
               (let st' = st\<lparr>changed := changed st + 1\<rparr>
                in case (if fo_lang f = ''python''
                         then chunk_python (ast_parse env) (fo_rel f) (fo_text f) (cfg_max_chunk_chars env)
                         else map_option (\<lambda>cs. (cs, []))
                                (chunk_fallback (fo_rel f) (fo_text f) (fo_lang f)
                                   (cfg_max_fallback_lines env) (cfg_fallback_overlap_lines env))) of
                     None \<Rightarrow> None
                   | Some (chunks, syms) \<Rightarrow> Some (reindex_file env f mtime sz chunks syms st')))"

fun index_files :: "'v env \<Rightarrow> file_obs list \<Rightarrow> 'v run_state \<Rightarrow> 'v run_state option" where
  "index_files env [] st = Some st"
| "index_files env (f # fs) st =
     (case index_file env f st of None \<Rightarrow> None | Some st' \<Rightarrow> index_files env fs st')"

definition index_repo :: "'v env \<Rightarrow> file_obs list \<Rightarrow> 'v store \<Rightarrow> 'v run_state option" where
  \<comment> \<open>\<open>files\<close> is what \<open>discover_files\<close> found, each with what the loop reads of it\<close>
  "index_repo env files s =
     (let s1 = s\<lparr>workspaces := insert_or_ignore workspace_key (workspaces s)
                    \<lparr>w_workspace_id = wid env, w_repo_root = env_repo_root env,
                      w_created_at = now env\<rparr>\<rparr>;
          s2 = s1\<lparr>snapshots := insert_or_replace snapshot_key (snapshots s1)
                    \<lparr>sn_workspace_id = wid env, sn_git_ref = git_ref env,
                      sn_indexed_at = now env\<rparr>\<rparr>
      in index_files env files \<lparr>db = s2, processed = 0, changed = 0, cb_log = []\<rparr>)"

subsection \<open>The resolution policy in the words of the specification\<close>



section \<open>Symbol lookup (search.py)\<close>

definition ascii_lower :: "char \<Rightarrow> char" where
  "ascii_lower c =
     (if 65 \<le> (of_char c :: nat) \<and> (of_char c :: nat) \<le> 90 then char_of ((of_char c :: nat) + 32)
      else c)"

fun like_match :: "string \<Rightarrow> string \<Rightarrow> bool" where
  \<comment> \<open>SQLite's \<open>text LIKE pattern\<close>: \<open>%\<close> is any run of characters, \<open>_\<close> any one character,
      ASCII letters match without regard to case\<close>
  "like_match [] [] = True"
| "like_match [] (c # cs) = False"
| "like_match (p # ps) [] = (p = CHR ''%'' \<and> like_match ps [])"
| "like_match (p # ps) (c # cs) =
     (if p = CHR ''%'' then like_match ps (c # cs) \<or> like_match (p # ps) cs
      else (p = CHR ''_'' \<or> ascii_lower p = ascii_lower c) \<and> like_match ps cs)"

definition truthy :: "string option \<Rightarrow> bool" where
  \<comment> \<open>\<open>if x:\<close> for an optional string\<close>
  "truthy x = (case x of None \<Rightarrow> False | Some v \<Rightarrow> v \<noteq> [])"

definition clean_prefix :: "string \<Rightarrow> string" where
  \<comment> \<open>\<open>path_prefix.strip().lstrip("/")\<close>\<close>
  "clean_prefix path_prefix = dropWhile (\<lambda>c. c = CHR ''/'') (strip path_prefix)"

text \<open>
  The class \<open>SearchEngine\<close> defines \<open>symbol_find\<close> twice; the second definition replaces the
  first, so this is the method that a call reaches. It reads the legacy table \<open>symbols\<close>,
  has no revision parameter and no \<open>ORDER BY\<close>: the rows come in table order.
\<close>

definition symbol_find ::
  "'v store \<Rightarrow> string \<Rightarrow> string \<Rightarrow> string option \<Rightarrow> string option \<Rightarrow> int
     \<Rightarrow> legacy_symbol_row list" where
  "symbol_find s w name language path_prefix limit =
     (if truthy language \<and> language \<noteq> Some ''python'' then []
      else
        (let rows = filter (\<lambda>r. ls_workspace_id r = w \<and>
                                 like_match (''%'' @ name @ ''%'') (ls_symbol_name r)) (symbols s);
             rows' = (if truthy path_prefix
                      then filter (\<lambda>r. prefix (clean_prefix (the path_prefix)) (ls_file_path r)) rows
                      else rows)
         in py_slice rows' 0 limit))"

section \<open>Path validation (security.py)\<close>






section \<open>Rank fusion in exact arithmetic (search.py)\<close>

text \<open>
  \<open>hybrid_search\<close> computes its scores in double-precision floating point. The two
  definitions below are its formulas read over the rationals, without rounding; they say
  nothing about the rounded results.
\<close>

definition clamp01 :: "rat \<Rightarrow> rat" where
  "clamp01 x = max 0 (min 1 x)"

definition hybrid_exact :: "rat \<Rightarrow> rat \<Rightarrow> rat \<Rightarrow> rat" where
  "hybrid_exact alpha sm lx =
     (let a = max 0 (min 1 alpha); b = 1 - a in a * clamp01 sm + b * clamp01 lx)"

section \<open>Example inputs\<close>

text \<open>
  A workspace with one file \<open>a.py\<close>, first holding a function \<open>f\<close> that calls \<open>g\<close>, then
  holding no definition at all. The library hashes are replaced by the identity and the
  embedding by the length of the passage.
\<close>

definition empty_store :: "nat store" where
  "empty_store = \<lparr>workspaces = [], snapshots = [], files_snap = [], symbols_snap = [],
     py_symbols = [], py_refs = [], py_call_edges = [], chunk_fts = [], symbols = [], points = []\<rparr>"

definition parsed_as :: "node list \<Rightarrow> parser" where
  \<comment> \<open>a parser that returns the given module body\<close>
  "parsed_as body t = Some body"


definition ex_parse :: parser where
  "ex_parse t = (if t = ''def f():\<newline>    g()''
                 then Some [FunctionDef ''f'' 1 (Some 2) [Other [Call (Name ''g'' Load 2 4) [] 2]]]
                 else Some [Other []])"

definition ex_env :: "nat env" where
  "ex_env = \<lparr>cfg_max_chunk_chars = 8000, cfg_max_fallback_lines = 220, cfg_fallback_overlap_lines = 40,
     wid = ''W'', env_repo_root = ''/repo'', git_ref = ''working_tree'', now = ''t'',
     ast_parse = ex_parse, uuid5 = (\<lambda>k. k), sha256_text = (\<lambda>t. t),
     embed_passages = map length, job_cb = False, total = 1\<rparr>"

definition ex_file_v1 :: file_obs where
  "ex_file_v1 = \<lparr>fo_rel = ''a.py'', fo_stat = Some (1, 17), fo_lang = ''python'', fo_hash = ''h1'',
      fo_text = ''def f():\<newline>    g()''\<rparr>"

definition ex_file_v2 :: file_obs where
  "ex_file_v2 = \<lparr>fo_rel = ''a.py'', fo_stat = Some (2, 5), fo_lang = ''python'', fo_hash = ''h2'',
      fo_text = ''x = 1''\<rparr>"

definition first_run :: "nat run_state option" where
  "first_run = index_repo ex_env [ex_file_v1] empty_store"

definition stale_run :: "nat run_state option" where
  "stale_run = (case index_repo ex_env [ex_file_v1] empty_store of
                  None \<Rightarrow> None
                | Some r \<Rightarrow> index_repo ex_env [ex_file_v2] (db r))"

definition ex_state :: "nat run_state" where
  "ex_state =
     \<lparr>db = empty_store\<lparr>files_snap :=
              [\<lparr>f_workspace_id = ''W'', f_git_ref = ''working_tree'', f_file_path = ''a.py'',
                 f_sha256 = ''h1'', f_mtime = 1, f_size = 17, f_language = ''python'',
                 f_updated_at = ''t0''\<rparr>]\<rparr>,
      processed = 0, changed = 0, cb_log = []\<rparr>"

section \<open>Termination of chunk\_fallback\<close>

lemma fallback_loop_returns:
  assumes "0 \<le> overlap_lines" "overlap_lines < max_lines"
  shows "\<exists>res. fallback_loop rel_path lang lines max_lines overlap_lines i out = Some res"
proof (induction "nat (int (length lines) - i)" arbitrary: i out rule: less_induct)
  case less
  show ?case
  proof (cases "i < int (length lines)")
    case False
    then show ?thesis by (subst fallback_loop.simps) simp
  next
    case True
    let ?n = "int (length lines)"
    let ?j = "min ?n (i + max_lines)"
    show ?thesis
    proof (cases "?j \<ge> ?n")
      case True
      with \<open>i < ?n\<close> show ?thesis
        by (subst fallback_loop.simps) (simp add: Let_def)
    next
      case False
      then have j: "?j = i + max_lines" by simp
      have adv: "i < max 0 (?j - overlap_lines)" using assms j by simp
      have "nat (?n - max 0 (?j - overlap_lines)) < nat (?n - i)"
        using adv \<open>i < ?n\<close> by simp
      from less [OF this] False \<open>i < ?n\<close> show ?thesis
        by (subst fallback_loop.simps) (simp add: Let_def)
    qed
  qed
qed

lemma fallback_loop_stuck:
  assumes "fallback_loop rel_path lang lines max_lines overlap_lines i out = Some res"
  shows "\<not> (lines = [''a'', ''b''] \<and> max_lines = 1 \<and> overlap_lines = 1 \<and> i = 0)"
  by (rule fallback_loop.raw_induct
        [where P = "\<lambda>rel lang lines m ov i out y.
                      \<not> (lines = [''a'', ''b''] \<and> m = 1 \<and> ov = 1 \<and> i = 0)",
         OF _ assms])
     (fastforce simp: Let_def split: if_splits)

lemma fallback_loop_diverges: "fallback_loop rel_path lang [''a'', ''b''] 1 1 0 out = None"
  using fallback_loop_stuck [of rel_path lang "[''a'', ''b'']" 1 1 0 out]
  by (cases "fallback_loop rel_path lang [''a'', ''b''] 1 1 0 out") auto

text \<open>
  C10: for every text and every pair with \<open>0 \<le> overlap_lines < max_lines\<close>,
  \<open>chunk_fallback\<close> terminates and returns a list of windows, because the start index
  strictly advances. The function does not check the precondition, and without it the loop
  can run forever: with \<open>max_lines = overlap_lines = 1\<close> a text of two lines never
  returns.
\<close>

theorem chunk_fallback_terminates:
  "(0 \<le> overlap_lines \<and> overlap_lines < max_lines \<longrightarrow>
      (\<exists>res. chunk_fallback rel_path text lang max_lines overlap_lines = Some res))
   \<and> chunk_fallback ''f.txt'' ''a\<newline>b'' ''text'' 1 1 = None"
proof
  show "0 \<le> overlap_lines \<and> overlap_lines < max_lines \<longrightarrow>
      (\<exists>res. chunk_fallback rel_path text lang max_lines overlap_lines = Some res)"
    unfolding chunk_fallback_def using fallback_loop_returns by blast
  show "chunk_fallback ''f.txt'' ''a\<newline>b'' ''text'' 1 1 = None"
    by (simp add: chunk_fallback_def splitlines_def is_linebreak_def fallback_loop_diverges)
qed

theorem chunk_fallback_terminates_witness:
  "(0::int) \<le> 1 \<and> (1::int) < 2 \<and>
   (\<exists>res. chunk_fallback ''a.txt'' ''x\<newline>y\<newline>z'' ''text'' 2 1 = Some res)"
  using chunk_fallback_terminates [of 1 2 "''a.txt''" "''x\<newline>y\<newline>z''" "''text''"]
  by simp
section \<open>Window sizes and overlap\<close>




lemma join_nl_snoc: "buf \<noteq> [] \<Longrightarrow> join_nl (buf @ [l]) = join_nl buf @ [CHR 0x0A] @ l"
  by (induction buf rule: join_nl.induct) auto














section \<open>Parse failures\<close>



section \<open>Classification of definitions\<close>

text \<open>
  C8 fails on the code: \<open>_visit_function\<close> tests whether the scope stack is empty, and the
  stack holds function names as well as class names. A function nested in a function, with
  no class around it, is classified as a method.
\<close>

theorem nested_function_is_method:
  "analyze_python_source
     (parsed_as [FunctionDef ''outer'' 1 (Some 2) [FunctionDef ''inner'' 2 (Some 2) [Other []]]])
     ''def outer():\<newline>    def inner(): pass''
   = ([\<lparr>d_name = ''outer'', d_qualname = ''outer'', d_kind = ''function'',
         d_start_line = 1, d_end_line = 2\<rparr>,
       \<lparr>d_name = ''inner'', d_qualname = ''outer.inner'', d_kind = ''method'',
         d_start_line = 2, d_end_line = 2\<rparr>], [], [])"
  by (simp add: analyze_python_source_def parsed_as_def enter_function_def leave_function_def
        qualname_def Let_def)

section \<open>Call-edge resolution\<close>











section \<open>Unchanged files\<close>

text \<open>
  C3: a file whose stored \<open>files_snap\<close> row for the active workspace and revision has the
  same digest, modification time and size is counted as processed and nothing else happens
  to it: the store (every table and the vector index) is the same afterwards, and the count
  of changed files too.
\<close>

theorem unchanged_file_no_writes:
  assumes "fo_stat f = Some (mtime, sz)"
    and "find (\<lambda>r. f_workspace_id r = wid env \<and> f_git_ref r = git_ref env \<and>
                     f_file_path r = fo_rel f) (files_snap (db st)) = Some row"
    and "f_sha256 row = fo_hash f" "f_mtime row = mtime" "f_size row = sz"
  shows "\<exists>st'. index_file env f st = Some st' \<and> db st' = db st \<and>
               processed st' = processed st + 1 \<and> changed st' = changed st"
  using assms by (simp add: index_file_def unchanged_def Let_def)

theorem unchanged_file_no_writes_witness:
  "\<exists>st'. index_file ex_env ex_file_v1 ex_state = Some st' \<and> db st' = db ex_state \<and>
         processed st' = processed ex_state + 1 \<and> changed st' = changed ex_state"
  using unchanged_file_no_writes [of ex_file_v1 1 17 ex_env ex_state
          "\<lparr>f_workspace_id = ''W'', f_git_ref = ''working_tree'', f_file_path = ''a.py'',
             f_sha256 = ''h1'', f_mtime = 1, f_size = 17, f_language = ''python'',
             f_updated_at = ''t0''\<rparr>"]
  by (simp add: ex_file_v1_def ex_env_def ex_state_def empty_store_def)

section \<open>Re-indexing a changed file\<close>

text \<open>
  C1 fails on the code for call edges. The pipeline deletes the file's \<open>py_symbols\<close> rows
  first and then deletes the edges whose origin is among the file's \<open>py_symbols\<close> rows, which
  by then are none: no edge is ever removed. Indexing \<open>a.py\<close> with a function \<open>f\<close> that calls
  \<open>g\<close>, and again after its content has become \<open>x = 1\<close>, leaves the edge of \<open>f\<close> in the store
  although the file has no symbol any more.
\<close>

theorem stale_call_edge_survives:
  "stale_run \<noteq> None
   \<and> py_symbols (db (the stale_run)) = []
   \<and> py_call_edges (db (the stale_run)) =
       [\<lparr>e_workspace_id = ''W'', e_git_ref = ''working_tree'',
          e_from_symbol_id = ''W|working_tree|a.py|f|function|1|2'', e_to_name = ''g'',
          e_to_symbol_id = None, e_call_line = 2\<rparr>]"
  by code_simp

section \<open>Symbol lookup\<close>

lemma python_enrichment_symbols: "symbols (python_enrichment env rel text s) = symbols s"
  by (simp add: python_enrichment_def Let_def split: prod.splits)

lemma reindex_file_symbols:
  "symbols (db (reindex_file env f mtime sz chunks syms st)) = symbols (db st)"
  by (simp add: reindex_file_def Let_def python_enrichment_symbols)

lemma index_file_symbols:
  "index_file env f st = Some st' \<Longrightarrow> symbols (db st') = symbols (db st)"
  by (auto simp: index_file_def Let_def reindex_file_symbols
           split: option.splits prod.splits if_splits)

lemma index_files_symbols:
  "index_files env fs st = Some st' \<Longrightarrow> symbols (db st') = symbols (db st)"
  by (induction fs arbitrary: st) (auto split: option.splits dest: index_file_symbols)

lemma index_repo_symbols: "index_repo env fs s = Some r \<Longrightarrow> symbols (db r) = symbols s"
  by (auto simp: index_repo_def Let_def dest: index_files_symbols)

lemma symbol_find_after_indexing:
  "index_repo env fs s = Some r \<Longrightarrow> symbols s = [] \<Longrightarrow>
   symbol_find (db r) w name language path_prefix limit = []"
  by (simp add: symbol_find_def index_repo_symbols py_slice_def Let_def)

text \<open>
  C6 fails on the code: the \<open>symbol_find\<close> that is reached reads the legacy table
  \<open>symbols\<close>, which no indexing run writes, and not \<open>symbols_snap\<close>. After \<open>a.py\<close> with
  its function \<open>f\<close> has been indexed into an empty store, the symbol \<open>f\<close> is stored and the
  lookup of \<open>f\<close> returns nothing.
\<close>

theorem symbol_find_misses_indexed_symbol:
  "first_run \<noteq> None
   \<and> map ss_symbol_name (symbols_snap (db (the first_run))) = [''f'']
   \<and> symbol_find (db (the first_run)) ''W'' ''f'' (Some ''python'') None 50 = []"
  by code_simp

section \<open>Path validation\<close>



section \<open>Rank fusion\<close>

lemma hybrid_exact_eq:
  "hybrid_exact alpha sm lx =
     clamp01 lx + max 0 (min 1 alpha) * (clamp01 sm - clamp01 lx)"
  by (simp add: hybrid_exact_def Let_def algebra_simps)

lemma hybrid_exact_monotone:
  assumes "a1 \<le> a2"
  shows "clamp01 lx \<le> clamp01 sm \<Longrightarrow> hybrid_exact a1 sm lx \<le> hybrid_exact a2 sm lx"
    and "clamp01 sm \<le> clamp01 lx \<Longrightarrow> hybrid_exact a2 sm lx \<le> hybrid_exact a1 sm lx"
proof -
  have m: "max 0 (min 1 a1) \<le> max 0 (min 1 a2)" using assms by simp
  show "hybrid_exact a1 sm lx \<le> hybrid_exact a2 sm lx" if "clamp01 lx \<le> clamp01 sm"
    using that m by (simp add: hybrid_exact_eq mult_right_mono)
  show "hybrid_exact a2 sm lx \<le> hybrid_exact a1 sm lx" if "clamp01 sm \<le> clamp01 lx"
    using that m by (simp add: hybrid_exact_eq mult_right_mono_neg)
qed

end
